theory Spec2Isabelle
  imports Complex_Main
begin

section \<open>Strings of the runtime\<close>

text \<open>
  A JavaScript string is a sequence of UTF-16 code units. The model uses \<open>string\<close>
  (\<open>char list\<close>), one \<open>char\<close> per code unit, and so covers the strings whose code units
  are all below 256 (the Latin-1 range); \<open>length\<close> is then the \<open>.length\<close> of the source.
  On that range \<open>trim\<close> and \<open>toLowerCase\<close> below are what \<open>String.prototype.trim\<close> and
  \<open>String.prototype.toLowerCase\<close> compute.
\<close>

definition isWhiteSpace :: "char \<Rightarrow> bool" where
  \<comment> \<open>WhiteSpace and LineTerminator of ECMAScript below U+0100:
      TAB, LF, VT, FF, CR, SP, NBSP.\<close>
  "isWhiteSpace ch = (of_char ch \<in> {9, 10, 11, 12, 13, 32, 160 :: nat})"

definition trim :: "string \<Rightarrow> string" where
  "trim s = rev (dropWhile isWhiteSpace (rev (dropWhile isWhiteSpace s)))"

definition toLowerCase_char :: "char \<Rightarrow> char" where
  \<comment> \<open>A-Z, and the upper-case letters U+00C0..U+00DE without the sign U+00D7.\<close>
  "toLowerCase_char ch =
     (let n = of_char ch :: nat
      in if (65 \<le> n \<and> n \<le> 90) \<or> (192 \<le> n \<and> n \<le> 222 \<and> n \<noteq> 215)
         then char_of (n + 32) else ch)"

definition toLowerCase :: "string \<Rightarrow> string" where
  "toLowerCase s = map toLowerCase_char s"

text \<open>
  \<open>s.split(',')\<close>: the pieces between the separators, empty pieces kept, so that the
  empty string splits into one empty piece.
\<close>

fun split :: "char \<Rightarrow> string \<Rightarrow> string list" where
  "split sep [] = [[]]"
| "split sep (x # xs) =
     (if x = sep then [] # split sep xs
      else (case split sep xs of [] \<Rightarrow> [[x]] | y # ys \<Rightarrow> (x # y) # ys))"

text \<open>\<open>xs.join(sep)\<close>.\<close>

fun join :: "string \<Rightarrow> string list \<Rightarrow> string" where
  "join sep [] = []"
| "join sep [x] = x"
| "join sep (x # y # ys) = x @ sep @ join sep (y # ys)"


section \<open>The validator of \<open>api/coingecko.js\<close>\<close>

definition ALLOWED_CURRENCIES :: "string list" where
  "ALLOWED_CURRENCIES = [''usd'', ''eur'', ''gbp'', ''jpy'', ''cny'', ''btc'', ''eth'']"

definition MAX_COIN_IDS :: nat where
  "MAX_COIN_IDS = 20"

definition is_id_char :: "char \<Rightarrow> bool" where
  \<comment> \<open>the character class \<open>[a-z0-9-]\<close>\<close>
  "is_id_char ch =
     (let n = of_char ch :: nat
      in (of_char CHR ''a'' \<le> n \<and> n \<le> of_char CHR ''z'')
         \<or> (of_char CHR ''0'' \<le> n \<and> n \<le> of_char CHR ''9'')
         \<or> ch = CHR ''-'')"

definition COIN_ID_PATTERN_test :: "string \<Rightarrow> bool" where
  \<comment> \<open>\<open>/^[a-z0-9-]+$/.test(id)\<close>: one character or more, all of the class.\<close>
  "COIN_ID_PATTERN_test s = (s \<noteq> [] \<and> list_all is_id_char s)"

definition default_ids :: string where
  "default_ids = ''bitcoin,ethereum,solana''"

text \<open>
  A query parameter read with \<open>searchParams.get\<close> is a string or \<open>null\<close>:
  \<open>string option\<close>. \<open>!idsParam\<close> holds for \<open>null\<close> and for the empty string.
\<close>

definition validateCoinIds :: "string option \<Rightarrow> string" where
  "validateCoinIds idsParam =
     (case idsParam of
        None \<Rightarrow> default_ids
      | Some s \<Rightarrow>
          if s = [] then default_ids
          else
            (let ids = take MAX_COIN_IDS
                         (filter (\<lambda>id. COIN_ID_PATTERN_test id \<and> length id \<le> 50)
                            (map (\<lambda>id. toLowerCase (trim id)) (split CHR '','' s)))
             in if length ids > 0 then join '','' ids else default_ids))"

definition validateCurrency :: "string option \<Rightarrow> string" where
  "validateCurrency val =
     (let currency =
            toLowerCase (case val of None \<Rightarrow> ''usd''
                         | Some s \<Rightarrow> if s = [] then ''usd'' else s)
      in if currency \<in> set ALLOWED_CURRENCIES then currency else ''usd'')"

definition validateBoolean :: "string option \<Rightarrow> string \<Rightarrow> string" where
  "validateBoolean val defaultVal =
     (if val = Some ''true'' \<or> val = Some ''false'' then
        (case val of Some s \<Rightarrow> s | None \<Rightarrow> defaultVal)
      else defaultVal)"


definition ids_ok :: "string list \<Rightarrow> bool" where
  "ids_ok ids =
     (1 \<le> length ids \<and> length ids \<le> 20
      \<and> list_all (\<lambda>id. COIN_ID_PATTERN_test id \<and> length id \<le> 50) ids)"


section \<open>The handler of \<open>api/coingecko.js\<close>\<close>

subsection \<open>Requests, responses and the cache slot\<close>

text \<open>
  The handler reads three query parameters of the request and nothing else.
  \<open>url.searchParams.get(name)\<close> is the value of the first pair with that name, or
  \<open>null\<close>.
\<close>

record request =
  req_method :: string
  url_path :: string
  url_query :: "(string \<times> string) list"
  req_headers :: "(string \<times> string) list"

definition searchParams_get :: "request \<Rightarrow> string \<Rightarrow> string option" where
  "searchParams_get req name = map_of (url_query req) name"

record response =
  status :: nat
  body :: string
  headers :: "(string \<times> string) list"

definition xcache :: "response \<Rightarrow> string option" where
  \<comment> \<open>the cache-status marker of a response: its \<open>X-Cache\<close> header\<close>
  "xcache r = map_of (headers r) ''X-Cache''"

text \<open>
  The module-level \<open>cache\<close> object. It starts as \<open>{ data: null, timestamp: 0 }\<close>, with
  no \<open>key\<close> property; every store writes all three fields.
\<close>

record cache =
  data :: "string option"
  key :: "string option"
  timestamp :: int

definition initial_cache :: cache where
  "initial_cache = \<lparr>data = None, key = None, timestamp = 0\<rparr>"

definition CACHE_TTL :: int where
  "CACHE_TTL = 120 * 1000"

definition cache_matches :: "cache \<Rightarrow> string \<Rightarrow> bool" where
  \<comment> \<open>\<open>cache.data && cache.key === cacheKey\<close>: \<open>null\<close> and the empty string are falsy.\<close>
  "cache_matches c cacheKey =
     ((case data c of None \<Rightarrow> False | Some d \<Rightarrow> d \<noteq> []) \<and> key c = Some cacheKey)"

definition payload :: "cache \<Rightarrow> string" where
  \<comment> \<open>\<open>cache.data\<close> as a response body; read only where \<open>cache_matches\<close> holds\<close>
  "payload c = (case data c of None \<Rightarrow> [] | Some d \<Rightarrow> d)"

definition isFresh :: "int \<Rightarrow> cache \<Rightarrow> bool" where
  \<comment> \<open>\<open>Date.now() - cache.timestamp < CACHE_TTL\<close>, times in milliseconds\<close>
  "isFresh now c = (now - timestamp c < CACHE_TTL)"

subsection \<open>The environment of one call\<close>

text \<open>
  \<open>fetch\<close> either rejects (a network failure, or a deadline that has passed) or resolves
  to a response with a status; reading the body (\<open>response.text()\<close> here,
  \<open>resp.json()\<close> in the quote fetchers) then yields it or rejects in its turn
  (\<open>None\<close>). The clock is read once in the freshness test and once more when the cache
  is written.
\<close>

datatype 'b fetch_outcome = NetworkError | Timeout | Responded nat "'b option"

record env =
  now_check :: int
  fetch :: "string \<Rightarrow> string fetch_outcome"
  now_store :: int

definition ok :: "nat \<Rightarrow> bool" where
  \<comment> \<open>\<open>response.ok\<close>\<close>
  "ok st = (200 \<le> st \<and> st \<le> 299)"

text \<open>
  \<open>new Response(body, { status, headers })\<close> with a string body. The constructor throws a
  \<open>RangeError\<close> for a status outside 200..599 and a \<open>TypeError\<close> for a body given together
  with a null-body status (204, 205, 304; 101 and 103 are out of range already). The
  handler calls it inside its \<open>try\<close> block with the status of the upstream.
\<close>

datatype js_error = RangeError | TypeError

definition new_Response :: "string \<Rightarrow> nat \<Rightarrow> (string \<times> string) list \<Rightarrow> js_error + response" where
  "new_Response b st hs =
     (if st < 200 \<or> 599 < st then Inl RangeError
      else if st \<in> {204, 205, 304} then Inl TypeError
      else Inr \<lparr>status = st, body = b, headers = hs\<rparr>)"

subsection \<open>The handler\<close>

definition hit_headers :: "(string \<times> string) list" where
  "hit_headers =
     [(''Content-Type'', ''application/json''),
      (''Access-Control-Allow-Origin'', ''*''),
      (''Cache-Control'', ''public, max-age=120, stale-while-revalidate=60''),
      (''X-Cache'', ''HIT'')]"

definition stale_headers :: "(string \<times> string) list" where
  "stale_headers =
     [(''Content-Type'', ''application/json''),
      (''Access-Control-Allow-Origin'', ''*''),
      (''Cache-Control'', ''public, max-age=120, stale-while-revalidate=60''),
      (''X-Cache'', ''STALE'')]"

definition miss_headers :: "(string \<times> string) list" where
  "miss_headers =
     [(''Content-Type'', ''application/json''),
      (''Access-Control-Allow-Origin'', ''*''),
      (''Cache-Control'', ''public, max-age=120, stale-while-revalidate=60''),
      (''X-Cache'', ''MISS'')]"

definition error_fallback_headers :: "(string \<times> string) list" where
  "error_fallback_headers =
     [(''Content-Type'', ''application/json''),
      (''Access-Control-Allow-Origin'', ''*''),
      (''Cache-Control'', ''public, max-age=120''),
      (''X-Cache'', ''ERROR-FALLBACK'')]"

definition failure_headers :: "(string \<times> string) list" where
  "failure_headers =
     [(''Content-Type'', ''application/json''),
      (''Access-Control-Allow-Origin'', ''*'')]"

definition failure_body :: string where
  \<comment> \<open>\<open>JSON.stringify({ error: 'Failed to fetch data' })\<close>\<close>
  \<open>failure_body = ''{"error":"Failed to fetch data"}''\<close>

definition ids_of :: "request \<Rightarrow> string" where
  "ids_of req = validateCoinIds (searchParams_get req ''ids'')"

definition vsCurrencies_of :: "request \<Rightarrow> string" where
  "vsCurrencies_of req = validateCurrency (searchParams_get req ''vs_currencies'')"

definition include24hrChange_of :: "request \<Rightarrow> string" where
  "include24hrChange_of req =
     validateBoolean (searchParams_get req ''include_24hr_change'') ''true''"

definition cacheKey :: "request \<Rightarrow> string" where
  "cacheKey req = ids_of req @ '':'' @ vsCurrencies_of req @ '':'' @ include24hrChange_of req"

definition geckoUrl :: "request \<Rightarrow> string" where
  "geckoUrl req =
     ''https://api.coingecko.com/api/v3/simple/price?ids='' @ ids_of req
     @ ''&vs_currencies='' @ vsCurrencies_of req
     @ ''&include_24hr_change='' @ include24hrChange_of req"

text \<open>The \<open>catch\<close> block, run with the cache as it is when the exception is raised.\<close>

definition on_error :: "cache \<Rightarrow> string \<Rightarrow> response" where
  "on_error c k =
     (if cache_matches c k
      then \<lparr>status = 200, body = payload c, headers = error_fallback_headers\<rparr>
      else \<lparr>status = 500, body = failure_body, headers = failure_headers\<rparr>)"

text \<open>
  One call of the handler: the response, the cache it leaves behind, and the upstream
  URLs it requested (none on a cache hit, one otherwise).
\<close>

record result =
  response :: response
  cache_after :: cache
  fetched :: "string list"

definition handler :: "env \<Rightarrow> cache \<Rightarrow> request \<Rightarrow> result" where
  "handler e c req =
     (if cache_matches c (cacheKey req) \<and> isFresh (now_check e) c then
        \<lparr>response = \<lparr>status = 200, body = payload c, headers = hit_headers\<rparr>,
         cache_after = c, fetched = []\<rparr>
      else
        (case fetch e (geckoUrl req) of
           Responded st txt \<Rightarrow>
             if st = 429 \<and> cache_matches c (cacheKey req) then
               \<lparr>response = \<lparr>status = 200, body = payload c, headers = stale_headers\<rparr>,
                cache_after = c, fetched = [geckoUrl req]\<rparr>
             else
               (case txt of
                  None \<Rightarrow>
                    \<lparr>response = on_error c (cacheKey req),
                     cache_after = c, fetched = [geckoUrl req]\<rparr>
                | Some d \<Rightarrow>
                    (let c' = (if ok st
                               then \<lparr>data = Some d, key = Some (cacheKey req),
                                     timestamp = now_store e\<rparr>
                               else c)
                     in case new_Response d st miss_headers of
                          Inr r \<Rightarrow>
                            \<lparr>response = r, cache_after = c', fetched = [geckoUrl req]\<rparr>
                        | Inl err \<Rightarrow>
                            \<lparr>response = on_error c' (cacheKey req),
                             cache_after = c', fetched = [geckoUrl req]\<rparr>))
         | _ \<Rightarrow>
             \<lparr>response = on_error c (cacheKey req),
              cache_after = c, fetched = [geckoUrl req]\<rparr>))"

text \<open>
  Two predicates on the inputs of a call, used to state what the handler does. A status
  is carried when \<open>new Response\<close> accepts it together with a body. The call fails
  unstored when an exception is raised inside the \<open>try\<close> block while the cache is
  still as the call found it: \<open>fetch\<close> rejects, the body cannot be read (and the answer
  is not a 429 replaced by the cached payload), or the status is not 2xx and cannot be
  carried (304, or outside 200..599).
\<close>

definition carries :: "nat \<Rightarrow> bool" where
  "carries st = (200 \<le> st \<and> st \<le> 599 \<and> st \<notin> {204, 205, 304})"

definition fails_unstored :: "env \<Rightarrow> cache \<Rightarrow> request \<Rightarrow> bool" where
  "fails_unstored e c req =
     (case fetch e (geckoUrl req) of
        NetworkError \<Rightarrow> True
      | Timeout \<Rightarrow> True
      | Responded st None \<Rightarrow> \<not> (st = 429 \<and> cache_matches c (cacheKey req))
      | Responded st (Some b) \<Rightarrow> \<not> ok st \<and> \<not> carries st)"


section \<open>The quote fetchers of the market service\<close>

text \<open>
  Each fetcher makes one request and is modelled as a function of the outcome of that
  request; the symbol and the API key enter the request URL only. A deadline of
  \<open>UPSTREAM_TIMEOUT_MS\<close> that passes makes \<open>fetch\<close> reject (\<open>Timeout\<close>). JSON numbers
  are modelled as exact rationals: the rounding of double arithmetic is left out, while
  a division by zero yields \<open>NaN\<close> or an infinity as it does in the runtime.
\<close>

definition UPSTREAM_TIMEOUT_MS :: nat where
  "UPSTREAM_TIMEOUT_MS = 10000"

datatype number = Finite rat | NaN | PosInfinity | NegInfinity

definition js_div :: "rat \<Rightarrow> rat \<Rightarrow> number" where
  "js_div a b =
     (if b \<noteq> 0 then Finite (a / b)
      else if a = 0 then NaN
      else if a > 0 then PosInfinity else NegInfinity)"

definition js_times :: "number \<Rightarrow> rat \<Rightarrow> number" where
  \<comment> \<open>multiplication by a positive finite number\<close>
  "js_times x k = (case x of Finite a \<Rightarrow> Finite (a * k) | other \<Rightarrow> other)"

definition or_else :: "rat option \<Rightarrow> rat \<Rightarrow> rat" where
  \<comment> \<open>\<open>a || b\<close> for an optional number \<open>a\<close>: \<open>undefined\<close> and \<open>0\<close> are falsy\<close>
  "or_else a b = (case a of None \<Rightarrow> b | Some x \<Rightarrow> if x \<noteq> 0 then x else b)"

subsection \<open>\<open>fetchFinnhubQuote\<close>\<close>

text \<open>The body of a quote response, with the fields of the source's type assertion.\<close>

record finnhub_data =
  q_c :: rat
  q_d :: rat
  q_dp :: rat
  q_h :: rat
  q_l :: rat
  q_o :: rat
  q_pc :: rat
  q_t :: rat

record stock_quote =
  symbol :: string
  price :: rat
  changePercent :: rat

definition fetchFinnhubQuote ::
  "finnhub_data fetch_outcome \<Rightarrow> string \<Rightarrow> string \<Rightarrow> stock_quote option" where
  "fetchFinnhubQuote upstream symb apiKey =
     (case upstream of
        Responded st js \<Rightarrow>
          if \<not> ok st then None
          else
            (case js of
               None \<Rightarrow> None
             | Some d \<Rightarrow>
                 if q_c d = 0 \<and> q_h d = 0 \<and> q_l d = 0 then None
                 else Some \<lparr>symbol = symb, price = q_c d, changePercent = q_dp d\<rparr>)
      | _ \<Rightarrow> None)"

subsection \<open>\<open>fetchYahooQuote\<close>\<close>

record chart_meta =
  regularMarketPrice :: rat
  chartPreviousClose :: "rat option"
  previousClose :: "rat option"

record chart_quote_series =
  close :: "rat option list option"

record chart_indicators =
  quote :: "chart_quote_series list option"

record chart_item =
  meta :: chart_meta
  indicators :: "chart_indicators option"

record YahooChartResponse =
  chart_result :: "chart_item list"

record chart_quote =
  chart_price :: rat
  change :: number
  sparkline :: "rat list"

definition prevClose_of :: "chart_meta \<Rightarrow> rat" where
  \<comment> \<open>\<open>meta.chartPreviousClose || meta.previousClose || price\<close>\<close>
  "prevClose_of m =
     or_else (chartPreviousClose m) (or_else (previousClose m) (regularMarketPrice m))"

definition change_of :: "chart_meta \<Rightarrow> number" where
  \<comment> \<open>\<open>((price - prevClose) / prevClose) * 100\<close>\<close>
  "change_of m =
     js_times (js_div (regularMarketPrice m - prevClose_of m) (prevClose_of m)) 100"

definition closes_of :: "chart_item \<Rightarrow> rat option list option" where
  \<comment> \<open>\<open>result.indicators?.quote?.[0]?.close\<close>\<close>
  "closes_of r =
     (case indicators r of
        None \<Rightarrow> None
      | Some ind \<Rightarrow>
          (case quote ind of
             None \<Rightarrow> None
           | Some [] \<Rightarrow> None
           | Some (q # _) \<Rightarrow> close q))"

definition fetchYahooQuote ::
  "YahooChartResponse fetch_outcome \<Rightarrow> string \<Rightarrow> chart_quote option" where
  "fetchYahooQuote upstream symb =
     (case upstream of
        Responded st js \<Rightarrow>
          if \<not> ok st then None
          else
            (case js of
               None \<Rightarrow> None
             | Some d \<Rightarrow>
                 (case chart_result d of
                    [] \<Rightarrow> None
                  | r # _ \<Rightarrow>
                      Some \<lparr>chart_price = regularMarketPrice (meta r),
                            change = change_of (meta r),
                            sparkline =
                              (case closes_of r of
                                 None \<Rightarrow> []
                               | Some cs \<Rightarrow> List.map_filter (\<lambda>v. v) cs)\<rparr>))
      | _ \<Rightarrow> None)"


section \<open>Concrete requests, environments and cache states\<close>

text \<open>
  Inputs for the worked examples below: a \<open>GET\<close> request with a given query, an
  environment whose upstream gives one fixed answer, and a cache slot as a store leaves it.
\<close>

definition request_of :: "(string \<times> string) list \<Rightarrow> request" where
  "request_of q =
     \<lparr>req_method = ''GET'', url_path = ''/api/coingecko'', url_query = q, req_headers = []\<rparr>"

definition env_of :: "int \<Rightarrow> string fetch_outcome \<Rightarrow> int \<Rightarrow> env" where
  "env_of t1 out t2 = \<lparr>now_check = t1, fetch = (\<lambda>url. out), now_store = t2\<rparr>"

definition stored :: "string \<Rightarrow> string \<Rightarrow> int \<Rightarrow> cache" where
  "stored d k t = \<lparr>data = Some d, key = Some k, timestamp = t\<rparr>"

definition finnhub_data_of :: "rat \<Rightarrow> rat \<Rightarrow> rat \<Rightarrow> rat \<Rightarrow> finnhub_data" where
  "finnhub_data_of cur hi lo pct =
     \<lparr>q_c = cur, q_d = 0, q_dp = pct, q_h = hi, q_l = lo, q_o = 0, q_pc = 0, q_t = 0\<rparr>"


section \<open>Properties of the validator\<close>

lemma split_not_Nil: "split sep s \<noteq> []"
  by (induction s) (auto split: list.splits)

lemma split_no_sep: "sep \<notin> set s \<Longrightarrow> split sep s = [s]"
  by (induction s) auto

lemma split_append_sep:
  "sep \<notin> set x \<Longrightarrow> split sep (x @ sep # rest) = x # split sep rest"
  by (induction x) auto

lemma split_join:
  "ids \<noteq> [] \<Longrightarrow> \<forall>id \<in> set ids. sep \<notin> set id \<Longrightarrow> split sep (join [sep] ids) = ids"
proof (induction "[sep]" ids rule: join.induct)
  case 1
  then show ?case by simp
next
  case (2 x)
  then show ?case by (simp add: split_no_sep)
next
  case (3 x y ys)
  then show ?case by (simp add: split_append_sep)
qed

lemma is_id_char_not_comma: "is_id_char ch \<Longrightarrow> ch \<noteq> CHR '',''"
  by (auto simp: is_id_char_def)

lemma pattern_no_comma: "COIN_ID_PATTERN_test s \<Longrightarrow> CHR '','' \<notin> set s"
  by (auto simp: COIN_ID_PATTERN_test_def list_all_iff dest: is_id_char_not_comma)

lemma default_ids_join: "default_ids = join '','' [''bitcoin'', ''ethereum'', ''solana'']"
  by (simp add: default_ids_def)

lemma default_ids_split:
  "split CHR '','' default_ids = [''bitcoin'', ''ethereum'', ''solana'']"
  by (simp add: default_ids_def)

lemma default_ids_ok: "ids_ok [''bitcoin'', ''ethereum'', ''solana'']"
  by (simp add: ids_ok_def COIN_ID_PATTERN_test_def is_id_char_def)

lemma filtered_ids_ok:
  assumes "ids = take MAX_COIN_IDS (filter (\<lambda>id. COIN_ID_PATTERN_test id \<and> length id \<le> 50) xs)"
    and "length ids > 0"
  shows "ids_ok ids \<and> split CHR '','' (join '','' ids) = ids"
proof -
  have all: "\<forall>id \<in> set ids. COIN_ID_PATTERN_test id \<and> length id \<le> 50"
    using assms(1) by (auto dest: in_set_takeD)
  have len: "length ids \<le> 20"
    using assms(1) by (simp add: MAX_COIN_IDS_def)
  have ok: "ids_ok ids"
    using all len assms(2) by (cases ids) (simp_all add: ids_ok_def list_all_iff)
  have "\<forall>id \<in> set ids. CHR '','' \<notin> set id"
    using all pattern_no_comma by blast
  moreover have "ids \<noteq> []"
    using assms(2) by auto
  ultimately have "split CHR '','' (join [CHR '',''] ids) = ids"
    by (rule split_join[rotated])
  with ok show ?thesis by simp
qed

lemma validateCoinIds_cases:
  "validateCoinIds p = default_ids
   \<or> (\<exists>ids. validateCoinIds p = join '','' ids \<and> ids_ok ids
            \<and> split CHR '','' (join '','' ids) = ids)"
proof (cases p)
  case None
  then show ?thesis by (simp add: validateCoinIds_def)
next
  case (Some s)
  define ids where
    "ids = take MAX_COIN_IDS
             (filter (\<lambda>id. COIN_ID_PATTERN_test id \<and> length id \<le> 50)
                (map (\<lambda>id. toLowerCase (trim id)) (split CHR '','' s)))"
  show ?thesis
  proof (cases "s \<noteq> [] \<and> length ids > 0")
    case True
    then have "validateCoinIds p = join '','' ids"
      using Some unfolding validateCoinIds_def ids_def Let_def by simp
    moreover have "ids_ok ids \<and> split CHR '','' (join '','' ids) = ids"
      using filtered_ids_ok[OF ids_def] True by simp
    ultimately show ?thesis by blast
  next
    case False
    then have "validateCoinIds p = default_ids"
      using Some unfolding validateCoinIds_def ids_def Let_def by auto
    then show ?thesis by simp
  qed
qed

lemma validateCoinIds_split_ok:
  "ids_ok (split CHR '','' (validateCoinIds p))
   \<and> join '','' (split CHR '','' (validateCoinIds p)) = validateCoinIds p"
  using validateCoinIds_cases[of p]
proof
  assume "validateCoinIds p = default_ids"
  then show ?thesis
    using default_ids_ok by (simp add: default_ids_split) (simp add: default_ids_def)
next
  assume "\<exists>ids. validateCoinIds p = join '','' ids \<and> ids_ok ids
            \<and> split CHR '','' (join '','' ids) = ids"
  then show ?thesis by auto
qed

lemma validateCurrency_allowed: "validateCurrency v \<in> set ALLOWED_CURRENCIES"
  by (simp add: validateCurrency_def Let_def) (simp add: ALLOWED_CURRENCIES_def)

lemma validateBoolean_values:
  "validateBoolean v d = ''true'' \<or> validateBoolean v d = ''false'' \<or> validateBoolean v d = d"
  by (auto simp: validateBoolean_def)

text \<open>
  C1. For every raw \<open>ids\<close> parameter (absent, empty, oversized or hostile) the validated
  value is the comma-join of a list of identifiers that has between 1 and 20 entries,
  each matching \<open>^[a-z0-9-]+$\<close> and at most 50 characters long; for every raw currency
  parameter the validated currency is one of the seven allowed currencies. Both
  validators are total: they return a string on every input.
\<close>

theorem C1_validator_output_bounded:
  "(\<exists>ids. validateCoinIds idsParam = join '','' ids
          \<and> split CHR '','' (validateCoinIds idsParam) = ids
          \<and> 1 \<le> length ids \<and> length ids \<le> 20
          \<and> (\<forall>id \<in> set ids. COIN_ID_PATTERN_test id \<and> length id \<le> 50))
   \<and> validateCurrency val \<in> set ALLOWED_CURRENCIES
   \<and> length ALLOWED_CURRENCIES = 7 \<and> distinct ALLOWED_CURRENCIES"
proof -
  let ?ids = "split CHR '','' (validateCoinIds idsParam)"
  have "ids_ok ?ids" and "validateCoinIds idsParam = join '','' ?ids"
    using validateCoinIds_split_ok[of idsParam] by simp_all
  then have "\<exists>ids. validateCoinIds idsParam = join '','' ids
          \<and> split CHR '','' (validateCoinIds idsParam) = ids
          \<and> 1 \<le> length ids \<and> length ids \<le> 20
          \<and> (\<forall>id \<in> set ids. COIN_ID_PATTERN_test id \<and> length id \<le> 50)"
    by (intro exI[of _ ?ids]) (simp add: ids_ok_def list_all_iff)
  moreover have "length ALLOWED_CURRENCIES = 7 \<and> distinct ALLOWED_CURRENCIES"
    by (simp add: ALLOWED_CURRENCIES_def)
  ultimately show ?thesis
    using validateCurrency_allowed[of val] by blast
qed

theorem C1_validator_output_bounded_witness:
  "validateCoinIds (Some '' Bitcoin,ETH,<script>,,sol ana'') = ''bitcoin,eth''
   \<and> split CHR '','' ''bitcoin,eth'' = [''bitcoin'', ''eth'']
   \<and> COIN_ID_PATTERN_test ''bitcoin'' \<and> COIN_ID_PATTERN_test ''eth''
   \<and> validateCurrency (Some ''EUR'') = ''eur''
   \<and> ''eur'' \<in> set ALLOWED_CURRENCIES"
proof -
  have v: "validateCoinIds (Some '' Bitcoin,ETH,<script>,,sol ana'') = ''bitcoin,eth''"
    by code_simp
  have c: "validateCurrency (Some ''EUR'') = ''eur''"
    by code_simp
  have s: "split CHR '','' ''bitcoin,eth'' = [''bitcoin'', ''eth'']"
    by simp
  from C1_validator_output_bounded
         [of "Some '' Bitcoin,ETH,<script>,,sol ana''" "Some ''EUR''"]
  obtain ids
    where ids: "split CHR '','' (validateCoinIds (Some '' Bitcoin,ETH,<script>,,sol ana'')) = ids"
      and pat: "\<forall>id \<in> set ids. COIN_ID_PATTERN_test id \<and> length id \<le> 50"
      and cur: "validateCurrency (Some ''EUR'') \<in> set ALLOWED_CURRENCIES"
    by blast
  from ids have "ids = [''bitcoin'', ''eth'']"
    unfolding v s by simp
  with pat have "COIN_ID_PATTERN_test ''bitcoin'' \<and> COIN_ID_PATTERN_test ''eth''"
    by simp
  with v s c cur show ?thesis
    by simp
qed



section \<open>Properties of the handler\<close>

lemma xcache_simps:
  "xcache \<lparr>status = s, body = b, headers = hit_headers\<rparr> = Some ''HIT''"
  "xcache \<lparr>status = s, body = b, headers = stale_headers\<rparr> = Some ''STALE''"
  "xcache \<lparr>status = s, body = b, headers = miss_headers\<rparr> = Some ''MISS''"
  "xcache \<lparr>status = s, body = b, headers = error_fallback_headers\<rparr> = Some ''ERROR-FALLBACK''"
  "xcache \<lparr>status = s, body = b, headers = failure_headers\<rparr> = None"
  by (simp_all add: xcache_def hit_headers_def stale_headers_def miss_headers_def
        error_fallback_headers_def failure_headers_def)

lemma new_Response_Inr:
  "new_Response b st hs = Inr r \<Longrightarrow> r = \<lparr>status = st, body = b, headers = hs\<rparr>"
  by (auto simp: new_Response_def split: if_splits)

lemma handler_hit:
  "cache_matches c (cacheKey req) \<Longrightarrow> isFresh (now_check e) c \<Longrightarrow>
   handler e c req =
     \<lparr>response = \<lparr>status = 200, body = payload c, headers = hit_headers\<rparr>,
      cache_after = c, fetched = []\<rparr>"
  by (simp add: handler_def)

lemma fetched_iff:
  "fetched (handler e c req) \<noteq> [] \<longleftrightarrow> \<not> (cache_matches c (cacheKey req) \<and> isFresh (now_check e) c)"
  by (simp add: handler_def Let_def split: fetch_outcome.splits option.splits sum.splits)

lemma handler_rate_limited:
  "\<not> (cache_matches c (cacheKey req) \<and> isFresh (now_check e) c) \<Longrightarrow>
   fetch e (geckoUrl req) = Responded 429 txt \<Longrightarrow> cache_matches c (cacheKey req) \<Longrightarrow>
   handler e c req =
     \<lparr>response = \<lparr>status = 200, body = payload c, headers = stale_headers\<rparr>,
      cache_after = c, fetched = [geckoUrl req]\<rparr>"
  by (simp add: handler_def)

lemma handler_thrown:
  "\<not> (cache_matches c (cacheKey req) \<and> isFresh (now_check e) c) \<Longrightarrow>
   fetch e (geckoUrl req) = NetworkError \<or> fetch e (geckoUrl req) = Timeout \<Longrightarrow>
   handler e c req =
     \<lparr>response = on_error c (cacheKey req), cache_after = c, fetched = [geckoUrl req]\<rparr>"
  by (auto simp add: handler_def)

lemma handler_body_read:
  "\<not> (cache_matches c (cacheKey req) \<and> isFresh (now_check e) c) \<Longrightarrow>
   fetch e (geckoUrl req) = Responded st (Some d) \<Longrightarrow>
   \<not> (st = 429 \<and> cache_matches c (cacheKey req)) \<Longrightarrow>
   handler e c req =
     (let c' = (if ok st
                then \<lparr>data = Some d, key = Some (cacheKey req), timestamp = now_store e\<rparr>
                else c)
      in case new_Response d st miss_headers of
           Inr r \<Rightarrow> \<lparr>response = r, cache_after = c', fetched = [geckoUrl req]\<rparr>
         | Inl err \<Rightarrow>
             \<lparr>response = on_error c' (cacheKey req), cache_after = c',
              fetched = [geckoUrl req]\<rparr>)"
  by (auto simp add: handler_def)

lemma handler_body_unread:
  "\<not> (cache_matches c (cacheKey req) \<and> isFresh (now_check e) c) \<Longrightarrow>
   fetch e (geckoUrl req) = Responded st None \<Longrightarrow>
   \<not> (st = 429 \<and> cache_matches c (cacheKey req)) \<Longrightarrow>
   handler e c req =
     \<lparr>response = on_error c (cacheKey req), cache_after = c, fetched = [geckoUrl req]\<rparr>"
  by (auto simp add: handler_def)

lemma payload_matches: "cache_matches c k \<Longrightarrow> data c = Some (payload c) \<and> payload c \<noteq> []"
  by (auto simp: cache_matches_def payload_def split: option.splits)

lemma cacheKey_join:
  "cacheKey req = join '':'' [ids_of req, vsCurrencies_of req, include24hrChange_of req]"
  by (simp add: cacheKey_def)

lemma cache_matches_iff:
  "cache_matches c k \<longleftrightarrow> (\<exists>d. data c = Some d \<and> d \<noteq> [] \<and> key c = Some k)"
  by (auto simp: cache_matches_def split: option.splits)

lemma new_Response_carries:
  "new_Response b st hs =
     (if carries st then Inr \<lparr>status = st, body = b, headers = hs\<rparr>
      else if st < 200 \<or> 599 < st then Inl RangeError else Inl TypeError)"
  by (auto simp: new_Response_def carries_def)

lemma handler_fails_unstored:
  assumes "fetched (handler e c req) \<noteq> []" and "fails_unstored e c req"
  shows "handler e c req =
     \<lparr>response = on_error c (cacheKey req), cache_after = c, fetched = [geckoUrl req]\<rparr>"
proof -
  from assms(1) have nohit: "\<not> (cache_matches c (cacheKey req) \<and> isFresh (now_check e) c)"
    by (simp add: fetched_iff)
  show ?thesis
  proof (cases "fetch e (geckoUrl req)")
    case NetworkError
    then show ?thesis using handler_thrown[OF nohit] by simp
  next
    case Timeout
    then show ?thesis using handler_thrown[OF nohit] by simp
  next
    case (Responded st rd)
    show ?thesis
    proof (cases rd)
      case None
      with Responded assms(2) have "\<not> (st = 429 \<and> cache_matches c (cacheKey req))"
        by (simp add: fails_unstored_def)
      with Responded None show ?thesis
        using handler_body_unread[OF nohit] by simp
    next
      case (Some b)
      with Responded assms(2) have n: "\<not> ok st" "\<not> carries st"
        by (simp_all add: fails_unstored_def)
      then have "st \<noteq> 429"
        by (auto simp: carries_def)
      then have "\<not> (st = 429 \<and> cache_matches c (cacheKey req))"
        by simp
      from handler_body_read[OF nohit _ this, of b] Responded Some n show ?thesis
        by (simp add: new_Response_carries)
    qed
  qed
qed

lemma handler_carried:
  assumes "fetched (handler e c req) \<noteq> []"
    and "fetch e (geckoUrl req) = Responded st (Some b)"
    and "carries st"
    and "\<not> (st = 429 \<and> cache_matches c (cacheKey req))"
  shows "handler e c req =
     \<lparr>response = \<lparr>status = st, body = b, headers = miss_headers\<rparr>,
      cache_after = (if ok st
                     then \<lparr>data = Some b, key = Some (cacheKey req), timestamp = now_store e\<rparr>
                     else c),
      fetched = [geckoUrl req]\<rparr>"
proof -
  from assms(1) have nohit: "\<not> (cache_matches c (cacheKey req) \<and> isFresh (now_check e) c)"
    by (simp add: fetched_iff)
  from handler_body_read[OF nohit assms(2,4)] assms(3) show ?thesis
    by (simp add: new_Response_carries)
qed

text \<open>
  C2, amended. Whenever the upstream call is made and answers 429 while the cache slot
  holds a non-empty payload under the computed key, the handler returns that payload
  with status 200 and the marker \<open>STALE\<close>, never 429, and leaves the cache as it was.
\<close>

theorem C2_rate_limit_fallback:
  assumes "fetched (handler e c req) \<noteq> []"
    and "fetch e (geckoUrl req) = Responded 429 txt"
    and "data c = Some d" and "d \<noteq> []" and "key c = Some (cacheKey req)"
  shows "response (handler e c req) = \<lparr>status = 200, body = d, headers = stale_headers\<rparr>
         \<and> xcache (response (handler e c req)) = Some ''STALE''
         \<and> status (response (handler e c req)) \<noteq> 429
         \<and> cache_after (handler e c req) = c"
proof -
  have m: "cache_matches c (cacheKey req)"
    using assms(3-5) by (simp add: cache_matches_def)
  have p: "payload c = d"
    using assms(3) by (simp add: payload_def)
  from assms(1) have "\<not> (cache_matches c (cacheKey req) \<and> isFresh (now_check e) c)"
    by (simp add: fetched_iff)
  then have "handler e c req =
     \<lparr>response = \<lparr>status = 200, body = payload c, headers = stale_headers\<rparr>,
      cache_after = c, fetched = [geckoUrl req]\<rparr>"
    using assms(2) m by (rule handler_rate_limited)
  then show ?thesis
    using p by (simp add: xcache_simps)
qed

theorem C2_rate_limit_fallback_witness:
  "fetched (handler (env_of 500000 (Responded 429 (Some ''Too Many Requests'')) 500001)
              (stored ''{}'' ''bitcoin,ethereum,solana:usd:true'' 0) (request_of [])) \<noteq> []
   \<and> key (stored ''{}'' ''bitcoin,ethereum,solana:usd:true'' 0) = Some (cacheKey (request_of []))
   \<and> response (handler (env_of 500000 (Responded 429 (Some ''Too Many Requests'')) 500001)
                 (stored ''{}'' ''bitcoin,ethereum,solana:usd:true'' 0) (request_of []))
       = \<lparr>status = 200, body = ''{}'', headers = stale_headers\<rparr>"
proof -
  let ?e = "env_of 500000 (Responded 429 (Some ''Too Many Requests'')) 500001"
  let ?c = "stored ''{}'' ''bitcoin,ethereum,solana:usd:true'' 0"
  let ?r = "request_of []"
  have 1: "fetched (handler ?e ?c ?r) \<noteq> []"
    by code_simp
  have 2: "fetch ?e (geckoUrl ?r) = Responded 429 (Some ''Too Many Requests'')"
    by (simp add: env_of_def)
  have 3: "data ?c = Some ''{}''" and 4: "''{}'' \<noteq> []"
    by (simp_all add: stored_def)
  have 5: "key ?c = Some (cacheKey ?r)"
    by code_simp
  from C2_rate_limit_fallback[OF 1 2 3 4 5] 1 5 show ?thesis
    by simp
qed

text \<open>
  The claim C2 as first stated fails for an entry whose stored payload is empty. A 2xx
  answer with an empty body leaves such an entry under the computed key; \<open>cache.data\<close>
  is then falsy, so a later upstream answer of 429 is not replaced: the caller gets
  status 429 and the upstream's body, marked \<open>MISS\<close>.
\<close>

theorem C2_empty_entry_gets_429:
  "cache_after (handler (env_of 1000 (Responded 200 (Some [])) 1001) initial_cache (request_of []))
     = stored [] ''bitcoin,ethereum,solana:usd:true'' 1001
   \<and> key (stored [] ''bitcoin,ethereum,solana:usd:true'' 1001) = Some (cacheKey (request_of []))
   \<and> fetched (handler (env_of 500000 (Responded 429 (Some ''Too Many Requests'')) 500001)
                (stored [] ''bitcoin,ethereum,solana:usd:true'' 1001) (request_of [])) \<noteq> []
   \<and> response (handler (env_of 500000 (Responded 429 (Some ''Too Many Requests'')) 500001)
                 (stored [] ''bitcoin,ethereum,solana:usd:true'' 1001) (request_of []))
       = \<lparr>status = 429, body = ''Too Many Requests'', headers = miss_headers\<rparr>"
  by code_simp

text \<open>
  C3, amended. Whenever the upstream call is made and fails with an exception while
  the cache is still as the call found it (a network failure, a timeout, a body that
  cannot be read unless the answer is a 429 replaced by the cached payload, or a
  non-2xx status that no response can carry: 304, or outside 200..599): if the cache slot
  holds a non-empty payload under the computed key the handler returns that payload
  with status 200 and the marker \<open>ERROR-FALLBACK\<close>; otherwise (no entry, another key, or
  an empty stored payload) it returns the fixed error body with status 500; the cache is
  left unchanged either way. An upstream answer with a readable body and a non-2xx
  status other than 429 that a response can carry (300..599 without 304) is not
  recovered from the cache: it is returned with its own status and body, marked
  \<open>MISS\<close>, and the cache is left unchanged.
\<close>

theorem C3_thrown_failure_fallback:
  assumes "fetched (handler e c req) \<noteq> []"
  shows "(fails_unstored e c req \<longrightarrow>
            response (handler e c req)
              = (if cache_matches c (cacheKey req)
                 then \<lparr>status = 200, body = payload c, headers = error_fallback_headers\<rparr>
                 else \<lparr>status = 500, body = failure_body, headers = failure_headers\<rparr>)
            \<and> cache_after (handler e c req) = c)
       \<and> (\<forall>st b. fetch e (geckoUrl req) = Responded st (Some b)
                   \<and> \<not> ok st \<and> carries st \<and> st \<noteq> 429 \<longrightarrow>
            response (handler e c req) = \<lparr>status = st, body = b, headers = miss_headers\<rparr>
            \<and> cache_after (handler e c req) = c)
       \<and> (cache_matches c (cacheKey req)
            \<longleftrightarrow> (\<exists>d. data c = Some d \<and> d \<noteq> [] \<and> key c = Some (cacheKey req)))"
proof -
  have thrown: "response (handler e c req)
              = (if cache_matches c (cacheKey req)
                 then \<lparr>status = 200, body = payload c, headers = error_fallback_headers\<rparr>
                 else \<lparr>status = 500, body = failure_body, headers = failure_headers\<rparr>)
            \<and> cache_after (handler e c req) = c"
    if "fails_unstored e c req"
    using handler_fails_unstored[OF assms that] by (simp add: on_error_def)
  have passed: "response (handler e c req) = \<lparr>status = st, body = b, headers = miss_headers\<rparr>
          \<and> cache_after (handler e c req) = c"
    if "fetch e (geckoUrl req) = Responded st (Some b)" "\<not> ok st" "carries st" "st \<noteq> 429"
    for st b
  proof -
    have "\<not> (st = 429 \<and> cache_matches c (cacheKey req))"
      using that by simp
    from handler_carried[OF assms that(1,3) this] that(2) show ?thesis
      by simp
  qed
  show ?thesis
    using thrown passed cache_matches_iff[of c "cacheKey req"] by blast
qed

theorem C3_thrown_failure_fallback_witness:
  "fetched (handler (env_of 500000 NetworkError 500001)
              (stored ''{}'' ''bitcoin,ethereum,solana:usd:true'' 0) (request_of [])) \<noteq> []
   \<and> fails_unstored (env_of 500000 NetworkError 500001)
        (stored ''{}'' ''bitcoin,ethereum,solana:usd:true'' 0) (request_of [])
   \<and> cache_matches (stored ''{}'' ''bitcoin,ethereum,solana:usd:true'' 0) (cacheKey (request_of []))
   \<and> response (handler (env_of 500000 NetworkError 500001)
                 (stored ''{}'' ''bitcoin,ethereum,solana:usd:true'' 0) (request_of []))
       = \<lparr>status = 200, body = ''{}'', headers = error_fallback_headers\<rparr>
   \<and> response (handler (env_of 500000 (Responded 503 None) 500001)
                 (stored ''{}'' ''bitcoin,ethereum,solana:usd:true'' 0) (request_of []))
       = \<lparr>status = 200, body = ''{}'', headers = error_fallback_headers\<rparr>
   \<and> fetched (handler (env_of 500000 Timeout 500001) initial_cache (request_of [])) \<noteq> []
   \<and> fails_unstored (env_of 500000 Timeout 500001) initial_cache (request_of [])
   \<and> \<not> cache_matches initial_cache (cacheKey (request_of []))
   \<and> response (handler (env_of 500000 Timeout 500001) initial_cache (request_of []))
       = \<lparr>status = 500, body = failure_body, headers = failure_headers\<rparr>
   \<and> cache_after (handler (env_of 500000 Timeout 500001) initial_cache (request_of []))
       = initial_cache
   \<and> response (handler (env_of 500000 (Responded 503 (Some ''upstream down'')) 500001)
                 initial_cache (request_of []))
       = \<lparr>status = 503, body = ''upstream down'', headers = miss_headers\<rparr>"
proof -
  let ?c = "stored ''{}'' ''bitcoin,ethereum,solana:usd:true'' 0"
  let ?r = "request_of []"
  let ?e1 = "env_of 500000 NetworkError 500001"
  let ?e2 = "env_of 500000 Timeout 500001"
  let ?e3 = "env_of 500000 (Responded 503 (Some ''upstream down'')) 500001"
  let ?e4 = "env_of 500000 (Responded 503 None) 500001"
  have f1: "fetched (handler ?e1 ?c ?r) \<noteq> []"
    and f2: "fetched (handler ?e2 initial_cache ?r) \<noteq> []"
    and f3: "fetched (handler ?e3 initial_cache ?r) \<noteq> []"
    and f4: "fetched (handler ?e4 ?c ?r) \<noteq> []"
    by code_simp+
  have m1: "cache_matches ?c (cacheKey ?r)" and m2: "\<not> cache_matches initial_cache (cacheKey ?r)"
    by code_simp+
  have p: "payload ?c = ''{}''"
    by (simp add: payload_def stored_def)
  have u1: "fails_unstored ?e1 ?c ?r"
    and u2: "fails_unstored ?e2 initial_cache ?r"
    and u4: "fails_unstored ?e4 ?c ?r"
    by (simp_all add: fails_unstored_def env_of_def)
  have u3: "fetch ?e3 (geckoUrl ?r) = Responded 503 (Some ''upstream down'')"
    by (simp add: env_of_def)
  have s3: "\<not> ok 503" "carries 503"
    by (simp_all add: ok_def carries_def)
  from C3_thrown_failure_fallback[OF f1] u1 m1 p
  have a: "response (handler ?e1 ?c ?r)
             = \<lparr>status = 200, body = ''{}'', headers = error_fallback_headers\<rparr>"
    by simp
  from C3_thrown_failure_fallback[OF f4] u4 m1 p
  have a': "response (handler ?e4 ?c ?r)
             = \<lparr>status = 200, body = ''{}'', headers = error_fallback_headers\<rparr>"
    by simp
  from C3_thrown_failure_fallback[OF f2] u2 m2
  have b: "response (handler ?e2 initial_cache ?r)
             = \<lparr>status = 500, body = failure_body, headers = failure_headers\<rparr>
           \<and> cache_after (handler ?e2 initial_cache ?r) = initial_cache"
    by simp
  from C3_thrown_failure_fallback[OF f3] u3 s3
  have d: "response (handler ?e3 initial_cache ?r)
             = \<lparr>status = 503, body = ''upstream down'', headers = miss_headers\<rparr>"
    by simp
  from f1 u1 m1 a a' f2 u2 m2 b d show ?thesis
    by simp
qed

text \<open>
  The claim C3 as first stated fails for an upstream answer that is neither 2xx nor
  429: with a stale entry under the computed key and an upstream answer of 503, the
  handler returns the 503 and the upstream's body, not the stored payload.
\<close>

theorem C3_non2xx_not_recovered:
  "fetched (handler (env_of 500000 (Responded 503 (Some ''upstream down'')) 500001)
              (stored ''{}'' ''bitcoin,ethereum,solana:usd:true'' 0) (request_of [])) \<noteq> []
   \<and> cache_matches (stored ''{}'' ''bitcoin,ethereum,solana:usd:true'' 0) (cacheKey (request_of []))
   \<and> payload (stored ''{}'' ''bitcoin,ethereum,solana:usd:true'' 0) = ''{}''
   \<and> response (handler (env_of 500000 (Responded 503 (Some ''upstream down'')) 500001)
                 (stored ''{}'' ''bitcoin,ethereum,solana:usd:true'' 0) (request_of []))
       = \<lparr>status = 503, body = ''upstream down'', headers = miss_headers\<rparr>
   \<and> body (response (handler (env_of 500000 (Responded 503 (Some ''upstream down'')) 500001)
                 (stored ''{}'' ''bitcoin,ethereum,solana:usd:true'' 0) (request_of [])))
       \<noteq> payload (stored ''{}'' ''bitcoin,ethereum,solana:usd:true'' 0)"
  by code_simp




text \<open>
  C5, amended. If a call reaches the upstream and the upstream answers 2xx with a
  non-empty body, the cache then holds that body under the key made of the validated
  ids, currency and flag joined by colons, stamped with the time of the store; a repeated
  call with the same request, made while less than 120 seconds have passed since the
  store, makes no upstream call and returns status 200, the same body byte for byte and
  the marker \<open>HIT\<close>, leaving the cache as it is.
\<close>

theorem C5_repeat_hits_cache:
  assumes "fetched (handler e1 c0 req) \<noteq> []"
    and "fetch e1 (geckoUrl req) = Responded st (Some b)"
    and "ok st"
    and "b \<noteq> []"
    and "now_check e2 - now_store e1 < CACHE_TTL"
  shows "cache_after (handler e1 c0 req)
           = \<lparr>data = Some b, key = Some (cacheKey req), timestamp = now_store e1\<rparr>
         \<and> cacheKey req
           = join '':'' [ids_of req, vsCurrencies_of req, include24hrChange_of req]
         \<and> body (response (handler e1 c0 req)) = b
         \<and> handler e2 (cache_after (handler e1 c0 req)) req
           = \<lparr>response = \<lparr>status = 200, body = b, headers = hit_headers\<rparr>,
              cache_after = cache_after (handler e1 c0 req), fetched = []\<rparr>"
proof -
  let ?c1 = "\<lparr>data = Some b, key = Some (cacheKey req), timestamp = now_store e1\<rparr>"
  from assms(1) have nohit: "\<not> (cache_matches c0 (cacheKey req) \<and> isFresh (now_check e1) c0)"
    by (simp add: fetched_iff)
  have not429: "\<not> (st = 429 \<and> cache_matches c0 (cacheKey req))"
    using assms(3) by (simp add: ok_def)
  have m: "cache_matches ?c1 (cacheKey req)" and p: "payload ?c1 = b"
    using assms(4) by (simp_all add: cache_matches_def payload_def)
  have first: "cache_after (handler e1 c0 req) = ?c1 \<and> body (response (handler e1 c0 req)) = b"
    using handler_body_read[OF nohit assms(2) not429] assms(3) m p
    by (auto simp: Let_def on_error_def split: sum.splits dest!: new_Response_Inr)
  have fresh: "isFresh (now_check e2) ?c1"
    using assms(5) by (simp add: isFresh_def)
  have "handler e2 ?c1 req
          = \<lparr>response = \<lparr>status = 200, body = payload ?c1, headers = hit_headers\<rparr>,
             cache_after = ?c1, fetched = []\<rparr>"
    using m fresh by (rule handler_hit)
  with first p show ?thesis
    by (simp add: cacheKey_join)
qed

theorem C5_repeat_hits_cache_witness:
  "cacheKey (request_of [(''ids'', ''bitcoin,ethereum''), (''vs_currencies'', ''usd'')])
     = ''bitcoin,ethereum:usd:true''
   \<and> xcache (response (handler (env_of 1000 (Responded 200 (Some ''{}'')) 1001)
                 initial_cache
                 (request_of [(''ids'', ''bitcoin,ethereum''), (''vs_currencies'', ''usd'')])))
       = Some ''MISS''
   \<and> cache_after (handler (env_of 1000 (Responded 200 (Some ''{}'')) 1001)
                 initial_cache
                 (request_of [(''ids'', ''bitcoin,ethereum''), (''vs_currencies'', ''usd'')]))
       = stored ''{}'' ''bitcoin,ethereum:usd:true'' 1001
   \<and> handler (env_of 121000 NetworkError 121001)
        (stored ''{}'' ''bitcoin,ethereum:usd:true'' 1001)
        (request_of [(''ids'', ''bitcoin,ethereum''), (''vs_currencies'', ''usd'')])
       = \<lparr>response = \<lparr>status = 200, body = ''{}'', headers = hit_headers\<rparr>,
          cache_after = stored ''{}'' ''bitcoin,ethereum:usd:true'' 1001,
          fetched = []\<rparr>"
proof -
  let ?r = "request_of [(''ids'', ''bitcoin,ethereum''), (''vs_currencies'', ''usd'')]"
  let ?e1 = "env_of 1000 (Responded 200 (Some ''{}'')) 1001"
  let ?e2 = "env_of 121000 NetworkError 121001"
  have k: "cacheKey ?r = ''bitcoin,ethereum:usd:true''"
    by code_simp
  have x: "xcache (response (handler ?e1 initial_cache ?r)) = Some ''MISS''"
    by code_simp
  have 1: "fetched (handler ?e1 initial_cache ?r) \<noteq> []"
    by code_simp
  have 2: "fetch ?e1 (geckoUrl ?r) = Responded 200 (Some ''{}'')"
    by (simp add: env_of_def)
  have 3: "ok 200" and 4: "''{}'' \<noteq> []"
    by (simp_all add: ok_def)
  have 5: "now_check ?e2 - now_store ?e1 < CACHE_TTL"
    by (simp add: env_of_def CACHE_TTL_def)
  have s1: "now_store ?e1 = 1001"
    by (simp add: env_of_def)
  note t = C5_repeat_hits_cache[OF 1 2 3 4 5]
  from t have ca: "cache_after (handler ?e1 initial_cache ?r)
                     = stored ''{}'' ''bitcoin,ethereum:usd:true'' 1001"
    unfolding k s1 stored_def by (rule conjunct1)
  from t have "handler ?e2 (cache_after (handler ?e1 initial_cache ?r)) ?r
                 = \<lparr>response = \<lparr>status = 200, body = ''{}'', headers = hit_headers\<rparr>,
                    cache_after = cache_after (handler ?e1 initial_cache ?r), fetched = []\<rparr>"
    by blast
  then have h: "handler ?e2 (stored ''{}'' ''bitcoin,ethereum:usd:true'' 1001) ?r
                 = \<lparr>response = \<lparr>status = 200, body = ''{}'', headers = hit_headers\<rparr>,
                    cache_after = stored ''{}'' ''bitcoin,ethereum:usd:true'' 1001,
                    fetched = []\<rparr>"
    unfolding ca .
  from k x ca h show ?thesis
    by blast
qed

text \<open>
  The claim C5 as first stated fails when the successful upstream answer has an empty
  body: the first call returns 200 and stores the empty body, and the repeated call,
  one millisecond after the store, finds \<open>cache.data\<close> falsy, calls the upstream again
  and is marked \<open>MISS\<close>.
\<close>

theorem C5_empty_body_not_served:
  "fetched (handler (env_of 1000 (Responded 200 (Some [])) 1001) initial_cache
              (request_of [(''ids'', ''bitcoin,ethereum''), (''vs_currencies'', ''usd'')])) \<noteq> []
   \<and> response (handler (env_of 1000 (Responded 200 (Some [])) 1001) initial_cache
              (request_of [(''ids'', ''bitcoin,ethereum''), (''vs_currencies'', ''usd'')]))
       = \<lparr>status = 200, body = [], headers = miss_headers\<rparr>
   \<and> cache_after (handler (env_of 1000 (Responded 200 (Some [])) 1001) initial_cache
              (request_of [(''ids'', ''bitcoin,ethereum''), (''vs_currencies'', ''usd'')]))
       = stored [] ''bitcoin,ethereum:usd:true'' 1001
   \<and> now_check (env_of 1002 (Responded 200 (Some [])) 1003)
       - timestamp (stored [] ''bitcoin,ethereum:usd:true'' 1001) < CACHE_TTL
   \<and> xcache (response (handler (env_of 1002 (Responded 200 (Some [])) 1003)
              (stored [] ''bitcoin,ethereum:usd:true'' 1001)
              (request_of [(''ids'', ''bitcoin,ethereum''), (''vs_currencies'', ''usd'')])))
       = Some ''MISS''
   \<and> fetched (handler (env_of 1002 (Responded 200 (Some [])) 1003)
              (stored [] ''bitcoin,ethereum:usd:true'' 1001)
              (request_of [(''ids'', ''bitcoin,ethereum''), (''vs_currencies'', ''usd'')])) \<noteq> []"
  by code_simp

text \<open>
  C6. The time to live is 120 seconds (in milliseconds), and an entry captured at \<open>T\<close> is
  fresh at time \<open>now\<close> exactly when \<open>now - T < 120000\<close>: fresh at \<open>T + ttl - \<epsilon>\<close> and stale
  at \<open>T + ttl + \<epsilon>\<close> for every \<open>\<epsilon> > 0\<close>, and stale at \<open>T + ttl\<close> itself. For a cache
  entry under the computed key, the handler answers from the cache (marker \<open>HIT\<close>)
  exactly when the entry is fresh.
\<close>

theorem C6_freshness_boundary:
  "CACHE_TTL = 120 * 1000
   \<and> (isFresh now c \<longleftrightarrow> now - timestamp c < 120000)
   \<and> (isFresh now c \<longleftrightarrow> now < timestamp c + 120000)
   \<and> (\<forall>\<epsilon>>0. isFresh (timestamp c + CACHE_TTL - \<epsilon>) c
             \<and> \<not> isFresh (timestamp c + CACHE_TTL + \<epsilon>) c)
   \<and> \<not> isFresh (timestamp c + CACHE_TTL) c
   \<and> (cache_matches c (cacheKey req) \<longrightarrow>
        (xcache (response (handler e c req)) = Some ''HIT''
         \<longleftrightarrow> now_check e - timestamp c < CACHE_TTL))"
proof -
  have a: "CACHE_TTL = 120 * 1000"
    by (simp add: CACHE_TTL_def)
  have b: "(isFresh now c \<longleftrightarrow> now - timestamp c < 120000)"
    "(isFresh now c \<longleftrightarrow> now < timestamp c + 120000)"
    by (auto simp: isFresh_def CACHE_TTL_def)
  have d: "\<forall>\<epsilon>>0. isFresh (timestamp c + CACHE_TTL - \<epsilon>) c
             \<and> \<not> isFresh (timestamp c + CACHE_TTL + \<epsilon>) c"
    by (simp add: isFresh_def)
  have f: "\<not> isFresh (timestamp c + CACHE_TTL) c"
    by (simp add: isFresh_def)
  have g: "xcache (response (handler e c req)) = Some ''HIT''
         \<longleftrightarrow> now_check e - timestamp c < CACHE_TTL" if m: "cache_matches c (cacheKey req)"
  proof (cases "isFresh (now_check e) c")
    case True
    then show ?thesis
      using m by (simp add: handler_hit xcache_simps) (simp add: isFresh_def)
  next
    case False
    then have "xcache (response (handler e c req)) \<noteq> Some ''HIT''"
      by (auto simp: handler_def Let_def on_error_def xcache_simps
          split: fetch_outcome.splits option.splits sum.splits dest!: new_Response_Inr)
    then show ?thesis
      using False by (simp add: isFresh_def)
  qed
  show ?thesis
    using a b d f g by blast
qed

theorem C6_freshness_boundary_witness:
  "isFresh 120999 (stored ''{}'' ''bitcoin,ethereum,solana:usd:true'' 1000)
   \<and> \<not> isFresh 121000 (stored ''{}'' ''bitcoin,ethereum,solana:usd:true'' 1000)
   \<and> \<not> isFresh 121001 (stored ''{}'' ''bitcoin,ethereum,solana:usd:true'' 1000)
   \<and> cache_matches (stored ''{}'' ''bitcoin,ethereum,solana:usd:true'' 1000)
        (cacheKey (request_of []))
   \<and> xcache (response (handler (env_of 120999 NetworkError 0)
                (stored ''{}'' ''bitcoin,ethereum,solana:usd:true'' 1000) (request_of [])))
       = Some ''HIT''
   \<and> xcache (response (handler (env_of 121000 NetworkError 0)
                (stored ''{}'' ''bitcoin,ethereum,solana:usd:true'' 1000) (request_of [])))
       \<noteq> Some ''HIT''"
proof -
  let ?c = "stored ''{}'' ''bitcoin,ethereum,solana:usd:true'' 1000"
  let ?r = "request_of []"
  have t: "timestamp ?c = 1000"
    by (simp add: stored_def)
  have m: "cache_matches ?c (cacheKey ?r)"
    by code_simp
  note b = C6_freshness_boundary[of 121000 ?c ?r "env_of 120999 NetworkError 0"]
  from b have ttl: "CACHE_TTL = 120 * 1000"
    by (rule conjunct1)
  from b have "\<forall>\<epsilon>>0. isFresh (timestamp ?c + CACHE_TTL - \<epsilon>) ?c
                    \<and> \<not> isFresh (timestamp ?c + CACHE_TTL + \<epsilon>) ?c"
    by blast
  then have "isFresh (timestamp ?c + CACHE_TTL - 1) ?c
             \<and> \<not> isFresh (timestamp ?c + CACHE_TTL + 1) ?c"
    by simp
  then have f1: "isFresh 120999 ?c" and f3: "\<not> isFresh 121001 ?c"
    unfolding t ttl by simp_all
  from b have "\<not> isFresh (timestamp ?c + CACHE_TTL) ?c"
    by blast
  then have f2: "\<not> isFresh 121000 ?c"
    unfolding t ttl by simp
  from b m have h1: "xcache (response (handler (env_of 120999 NetworkError 0) ?c ?r)) = Some ''HIT''"
    unfolding t ttl by (simp add: env_of_def)
  from C6_freshness_boundary[of 0 ?c ?r "env_of 121000 NetworkError 0"] m
  have h2: "xcache (response (handler (env_of 121000 NetworkError 0) ?c ?r)) \<noteq> Some ''HIT''"
    unfolding t by (simp add: env_of_def CACHE_TTL_def)
  from f1 f2 f3 m h1 h2 show ?thesis
    by blast
qed

text \<open>
  The cache slot after a call: it is written exactly when the upstream was called and
  answered 2xx with a readable body, and it then holds that body, the computed key and
  the time of the store, whatever response the call goes on to return.
\<close>

lemma cache_after_handler:
  "cache_after (handler e c req) =
     (case fetch e (geckoUrl req) of
        Responded st (Some d) \<Rightarrow>
          if fetched (handler e c req) \<noteq> [] \<and> ok st
          then \<lparr>data = Some d, key = Some (cacheKey req), timestamp = now_store e\<rparr>
          else c
      | _ \<Rightarrow> c)"
  by (auto simp: handler_def Let_def ok_def
      split: fetch_outcome.splits option.splits sum.splits)

text \<open>
  C7 at an upstream answer of 204 with a stale entry under the computed key. The status
  is 2xx, so the slot is overwritten with the empty body; \<open>new Response\<close> then rejects a
  body with status 204, and the \<open>catch\<close> block finds the stored payload empty and
  returns the hard failure. The call ends on the hard-failure path with the cache
  changed and the stale payload gone.
\<close>

theorem C7_null_body_status_overwrites_then_fails:
  "cache_matches (stored ''{}'' ''bitcoin,ethereum,solana:usd:true'' 0) (cacheKey (request_of []))
   \<and> ok 204
   \<and> handler (env_of 500000 (Responded 204 (Some [])) 500001)
        (stored ''{}'' ''bitcoin,ethereum,solana:usd:true'' 0) (request_of [])
     = \<lparr>response = \<lparr>status = 500, body = failure_body, headers = failure_headers\<rparr>,
        cache_after = stored [] ''bitcoin,ethereum,solana:usd:true'' 500001,
        fetched = [geckoUrl (request_of [])]\<rparr>
   \<and> cache_after (handler (env_of 500000 (Responded 204 (Some [])) 500001)
        (stored ''{}'' ''bitcoin,ethereum,solana:usd:true'' 0) (request_of []))
     \<noteq> stored ''{}'' ''bitcoin,ethereum,solana:usd:true'' 0"
  by code_simp

text \<open>
  C10. Two requests whose \<open>ids\<close>, \<open>vs_currencies\<close> and \<open>include_24hr_change\<close> parameters
  read the same give the same validated values, the same cache key and the same
  upstream URL, whatever else differs in them (method, path, other parameters,
  headers); the handler then behaves the same on both.
\<close>

theorem C10_only_three_parameters:
  assumes "searchParams_get r1 ''ids'' = searchParams_get r2 ''ids''"
    and "searchParams_get r1 ''vs_currencies'' = searchParams_get r2 ''vs_currencies''"
    and "searchParams_get r1 ''include_24hr_change'' = searchParams_get r2 ''include_24hr_change''"
  shows "ids_of r1 = ids_of r2
         \<and> vsCurrencies_of r1 = vsCurrencies_of r2
         \<and> include24hrChange_of r1 = include24hrChange_of r2
         \<and> cacheKey r1 = cacheKey r2
         \<and> geckoUrl r1 = geckoUrl r2
         \<and> handler e c r1 = handler e c r2"
proof -
  have v: "ids_of r1 = ids_of r2" "vsCurrencies_of r1 = vsCurrencies_of r2"
    "include24hrChange_of r1 = include24hrChange_of r2"
    using assms by (simp_all add: ids_of_def vsCurrencies_of_def include24hrChange_of_def)
  then have k: "cacheKey r1 = cacheKey r2" and u: "geckoUrl r1 = geckoUrl r2"
    by (simp_all add: cacheKey_def geckoUrl_def)
  have "handler e c r1 = handler e c r2"
    unfolding handler_def k u by (rule refl)
  with v k u show ?thesis
    by simp
qed

theorem C10_only_three_parameters_witness:
  "searchParams_get
     \<lparr>req_method = ''GET'', url_path = ''/api/coingecko'',
        url_query = [(''ids'', ''Bitcoin''), (''debug'', ''1'')],
        req_headers = [(''Cookie'', ''session=abc'')]\<rparr> ''ids''
   = searchParams_get
       \<lparr>req_method = ''POST'', url_path = ''/other'',
          url_query = [(''utm_source'', ''mail''), (''ids'', ''Bitcoin''), (''ids'', ''zcash'')],
          req_headers = []\<rparr> ''ids''
   \<and> cacheKey
       \<lparr>req_method = ''GET'', url_path = ''/api/coingecko'',
          url_query = [(''ids'', ''Bitcoin''), (''debug'', ''1'')],
          req_headers = [(''Cookie'', ''session=abc'')]\<rparr>
     = ''bitcoin:usd:true''
   \<and> cacheKey
       \<lparr>req_method = ''POST'', url_path = ''/other'',
          url_query = [(''utm_source'', ''mail''), (''ids'', ''Bitcoin''), (''ids'', ''zcash'')],
          req_headers = []\<rparr>
     = ''bitcoin:usd:true''"
proof -
  let ?r1 = "\<lparr>req_method = ''GET'', url_path = ''/api/coingecko'',
        url_query = [(''ids'', ''Bitcoin''), (''debug'', ''1'')],
        req_headers = [(''Cookie'', ''session=abc'')]\<rparr>"
  let ?r2 = "\<lparr>req_method = ''POST'', url_path = ''/other'',
          url_query = [(''utm_source'', ''mail''), (''ids'', ''Bitcoin''), (''ids'', ''zcash'')],
          req_headers = []\<rparr>"
  have 1: "searchParams_get ?r1 ''ids'' = searchParams_get ?r2 ''ids''"
    and 2: "searchParams_get ?r1 ''vs_currencies'' = searchParams_get ?r2 ''vs_currencies''"
    and 3: "searchParams_get ?r1 ''include_24hr_change''
            = searchParams_get ?r2 ''include_24hr_change''"
    by (simp_all add: searchParams_get_def)
  have k: "cacheKey ?r1 = ''bitcoin:usd:true''"
    by code_simp
  from C10_only_three_parameters[OF 1 2 3, of "env_of 0 NetworkError 0" initial_cache]
  have "cacheKey ?r1 = cacheKey ?r2"
    by blast
  with 1 k show ?thesis
    by simp
qed


section \<open>Properties of the quote fetchers\<close>

text \<open>
  C8. For every symbol, a 2xx quote whose current price, high and low are all zero
  gives no result; a 2xx quote that is not all zero gives the result with the symbol,
  the current price and the percent change of the quote; a non-2xx answer, an unreadable
  body, a timeout and a network failure give no result. The fetcher returns a value in
  every case.
\<close>

theorem C8_finnhub_quote:
  "(ok st \<and> q_c d = 0 \<and> q_h d = 0 \<and> q_l d = 0 \<longrightarrow>
      fetchFinnhubQuote (Responded st (Some d)) symb apiKey = None)
   \<and> (ok st \<and> \<not> (q_c d = 0 \<and> q_h d = 0 \<and> q_l d = 0) \<longrightarrow>
      fetchFinnhubQuote (Responded st (Some d)) symb apiKey
        = Some \<lparr>symbol = symb, price = q_c d, changePercent = q_dp d\<rparr>)
   \<and> (\<not> ok st \<longrightarrow> fetchFinnhubQuote (Responded st js) symb apiKey = None)
   \<and> fetchFinnhubQuote (Responded st None) symb apiKey = None
   \<and> fetchFinnhubQuote Timeout symb apiKey = None
   \<and> fetchFinnhubQuote NetworkError symb apiKey = None"
  by (simp add: fetchFinnhubQuote_def)

theorem C8_finnhub_quote_witness:
  "ok 200
   \<and> fetchFinnhubQuote (Responded 200 (Some (finnhub_data_of 0 0 0 0))) ''NOPE'' ''k'' = None
   \<and> fetchFinnhubQuote (Responded 200 (Some (finnhub_data_of 150 151 149 2))) ''AAPL'' ''k''
       = Some \<lparr>symbol = ''AAPL'', price = 150, changePercent = 2\<rparr>
   \<and> \<not> ok 403
   \<and> fetchFinnhubQuote (Responded 403 (Some (finnhub_data_of 150 151 149 2))) ''AAPL'' ''k''
       = None"
proof -
  have o: "ok 200" and n: "\<not> ok 403"
    by (simp_all add: ok_def)
  have z: "q_c (finnhub_data_of 0 0 0 0) = 0 \<and> q_h (finnhub_data_of 0 0 0 0) = 0
           \<and> q_l (finnhub_data_of 0 0 0 0) = 0"
    by (simp add: finnhub_data_of_def)
  have v: "q_c (finnhub_data_of 150 151 149 2) = 150" "q_dp (finnhub_data_of 150 151 149 2) = 2"
    by (simp_all add: finnhub_data_of_def)
  from C8_finnhub_quote[of 200 "finnhub_data_of 0 0 0 0" "''NOPE''" "''k''"] o z
  have a: "fetchFinnhubQuote (Responded 200 (Some (finnhub_data_of 0 0 0 0))) ''NOPE'' ''k'' = None"
    by blast
  from C8_finnhub_quote[of 200 "finnhub_data_of 150 151 149 2" "''AAPL''" "''k''"] o v
  have b: "fetchFinnhubQuote (Responded 200 (Some (finnhub_data_of 150 151 149 2))) ''AAPL'' ''k''
       = Some \<lparr>symbol = ''AAPL'', price = 150, changePercent = 2\<rparr>"
    by simp
  from C8_finnhub_quote[of 403 _ "''AAPL''" "''k''" "Some (finnhub_data_of 150 151 149 2)"] n
  have d: "fetchFinnhubQuote (Responded 403 (Some (finnhub_data_of 150 151 149 2))) ''AAPL'' ''k''
       = None"
    by blast
  from o a b n d show ?thesis
    by blast
qed

text \<open>
  The previous close used as the denominator is zero exactly when the price is zero and
  both optional fields are absent or zero; the change is then \<open>NaN\<close>, and otherwise the
  finite value of the formula. With both fields absent the change is 0 for every
  non-zero price.
\<close>

lemma prevClose_of_zero_iff:
  "prevClose_of m = 0 \<longleftrightarrow>
     regularMarketPrice m = 0
     \<and> (chartPreviousClose m = None \<or> chartPreviousClose m = Some 0)
     \<and> (previousClose m = None \<or> previousClose m = Some 0)"
  by (auto simp: prevClose_of_def or_else_def split: option.splits)

lemma change_of_cases:
  "change_of m =
     (if prevClose_of m = 0 then NaN
      else Finite ((regularMarketPrice m - prevClose_of m) / prevClose_of m * 100))"
  by (auto simp: change_of_def js_div_def js_times_def prevClose_of_zero_iff)

lemma change_of_both_absent:
  "chartPreviousClose m = None \<Longrightarrow> previousClose m = None \<Longrightarrow>
   change_of m = (if regularMarketPrice m = 0 then NaN else Finite 0)"
  by (simp add: change_of_cases) (simp add: prevClose_of_def or_else_def)

text \<open>
  C9 at a quote with price 0 and both previous-close fields absent: the fallback chain
  ends at the price itself, the denominator is 0 and the change is \<open>NaN\<close>, not 0.
\<close>

theorem C9_zero_price_gives_NaN:
  "prevClose_of \<lparr>regularMarketPrice = 0, chartPreviousClose = None, previousClose = None\<rparr> = 0
   \<and> change_of \<lparr>regularMarketPrice = 0, chartPreviousClose = None, previousClose = None\<rparr> = NaN
   \<and> fetchYahooQuote
        (Responded 200
           (Some \<lparr>chart_result =
                    [\<lparr>meta = \<lparr>regularMarketPrice = 0, chartPreviousClose = None,
                               previousClose = None\<rparr>,
                      indicators = None\<rparr>]\<rparr>))
        ''XYZ''
       = Some \<lparr>chart_price = 0, change = NaN, sparkline = []\<rparr>"
  by (simp add: fetchYahooQuote_def ok_def change_of_def prevClose_of_def or_else_def
      js_div_def js_times_def closes_of_def)

end
